theory Spec2Isabelle
  imports Complex_Main
begin

section \<open>Numbers and arrays of \<^verbatim>\<open>utils/blend_indices.py\<close>\<close>

text \<open>
  The module computes with IEEE double-precision numbers through numpy.  In the embedding
  of the module a finite double is the real number it denotes and every operation returns
  its exact result: rounding, overflow and underflow of a finite result and the sign of
  zero are left out, so a statement about this embedding is a statement of exact real
  arithmetic.  What is kept of IEEE arithmetic there are the special values that numpy
  returns where Python itself would raise: \<open>PInf\<close> and \<open>NInf\<close> (a division by zero,
  with a warning only) and \<open>NaN\<close> (an invalid operation such as a fractional power of a
  negative number).  The rounding of doubles itself is given in the section on double
  precision, which evaluates single calls as the doubles compute them.
\<close>

datatype npfloat = Fin real | PInf | NInf | NaN

fun fl_neg :: "npfloat \<Rightarrow> npfloat" where
  "fl_neg (Fin a) = Fin (- a)"
| "fl_neg PInf = NInf"
| "fl_neg NInf = PInf"
| "fl_neg NaN = NaN"

fun fl_add :: "npfloat \<Rightarrow> npfloat \<Rightarrow> npfloat" where
  "fl_add (Fin a) (Fin b) = Fin (a + b)"
| "fl_add NaN y = NaN"
| "fl_add x NaN = NaN"
| "fl_add PInf NInf = NaN"
| "fl_add NInf PInf = NaN"
| "fl_add PInf y = PInf"
| "fl_add NInf y = NInf"
| "fl_add (Fin a) y = y"

definition fl_sub :: "npfloat \<Rightarrow> npfloat \<Rightarrow> npfloat" where
  "fl_sub x y = fl_add x (fl_neg y)"

text \<open>The sign of a value that is not NaN: \<open>True\<close> for negative; zero counts as positive.\<close>

fun fl_negative :: "npfloat \<Rightarrow> bool" where
  "fl_negative (Fin a) = (a < 0)"
| "fl_negative NInf = True"
| "fl_negative PInf = False"
| "fl_negative NaN = False"

definition fl_signed_inf :: "bool \<Rightarrow> npfloat" where
  "fl_signed_inf negative = (if negative then NInf else PInf)"

fun fl_mul :: "npfloat \<Rightarrow> npfloat \<Rightarrow> npfloat" where
  "fl_mul (Fin a) (Fin b) = Fin (a * b)"
| "fl_mul NaN y = NaN"
| "fl_mul x NaN = NaN"
| "fl_mul x y =
     (if x = Fin 0 \<or> y = Fin 0 then NaN
      else fl_signed_inf (fl_negative x \<noteq> fl_negative y))"

fun fl_div :: "npfloat \<Rightarrow> npfloat \<Rightarrow> npfloat" where
  "fl_div (Fin a) (Fin b) =
     (if b \<noteq> 0 then Fin (a / b)
      else if a = 0 then NaN
      else fl_signed_inf (a < 0))"
| "fl_div NaN y = NaN"
| "fl_div x NaN = NaN"
| "fl_div (Fin a) y = Fin 0"
| "fl_div x (Fin b) = fl_signed_inf (fl_negative x \<noteq> (b < 0))"
| "fl_div x y = NaN"

text \<open>
  \<open>pow\<close> of C99 (Annex F), which \<^verbatim>\<open>np.power\<close> and \<^verbatim>\<open>**\<close> on numpy values compute:
  a negative finite base with a fractional exponent gives NaN, a zero base with a positive
  exponent gives zero, a positive base is \<open>powr\<close>.
\<close>

definition is_odd_int :: "real \<Rightarrow> bool" where
  "is_odd_int y = (y \<in> \<int> \<and> odd \<lfloor>y\<rfloor>)"

fun fl_pow :: "npfloat \<Rightarrow> npfloat \<Rightarrow> npfloat" where
  "fl_pow x (Fin y) =
     (if y = 0 then Fin 1
      else case x of
        NaN \<Rightarrow> NaN
      | PInf \<Rightarrow> (if y < 0 then Fin 0 else PInf)
      | NInf \<Rightarrow> (if y < 0 then Fin 0 else if is_odd_int y then NInf else PInf)
      | Fin r \<Rightarrow>
          (if 0 < r then Fin (r powr y)
           else if r = 0 then (if y < 0 then PInf else Fin 0)
           else if y \<in> \<int> then Fin (r powi \<lfloor>y\<rfloor>)
           else NaN))"
| "fl_pow x PInf =
     (case x of
        NaN \<Rightarrow> NaN
      | PInf \<Rightarrow> PInf
      | NInf \<Rightarrow> PInf
      | Fin r \<Rightarrow> (if \<bar>r\<bar> = 1 then Fin 1 else if \<bar>r\<bar> < 1 then Fin 0 else PInf))"
| "fl_pow x NInf =
     (case x of
        NaN \<Rightarrow> NaN
      | PInf \<Rightarrow> Fin 0
      | NInf \<Rightarrow> Fin 0
      | Fin r \<Rightarrow> (if \<bar>r\<bar> = 1 then Fin 1 else if \<bar>r\<bar> < 1 then PInf else Fin 0))"
| "fl_pow x NaN = (if x = Fin 1 then Fin 1 else NaN)"

fun fl_log10 :: "npfloat \<Rightarrow> npfloat" where
  "fl_log10 (Fin a) = (if 0 < a then Fin (log 10 a) else if a = 0 then NInf else NaN)"
| "fl_log10 PInf = PInf"
| "fl_log10 NInf = NaN"
| "fl_log10 NaN = NaN"

text \<open>The comparison \<^verbatim>\<open>x > y\<close>: false whenever an operand is NaN.\<close>

fun fl_gt :: "npfloat \<Rightarrow> npfloat \<Rightarrow> bool" where
  "fl_gt (Fin a) (Fin b) = (b < a)"
| "fl_gt NaN y = False"
| "fl_gt x NaN = False"
| "fl_gt x PInf = False"
| "fl_gt NInf y = False"
| "fl_gt PInf y = True"
| "fl_gt (Fin a) NInf = True"

text \<open>
  An argument of a transform is a numpy scalar (\<^verbatim>\<open>np.float64\<close>) or a one-dimensional
  \<^verbatim>\<open>ndarray\<close>, given by the sequence of its elements; its shape is its length.  Every
  numpy operation of the module is a ufunc: it acts on each element and keeps scalar
  or array and the order of the elements, which is \<open>map_nd\<close>.  The other operand of
  each operation in the module is a Python float constant, broadcast to every element.
  The arithmetic operators of Python on these arguments are the same ufuncs.  (On a
  plain Python float the operators agree with them but for one case: in \<^verbatim>\<open>inv_ppi\<close>,
  \<^verbatim>\<open>**\<close> of a negative float to the power 0.08 is a complex number where numpy has
  NaN.)
\<close>

datatype 'a nd = Scalar 'a | Array "'a list"

definition add_c :: "npfloat nd \<Rightarrow> real \<Rightarrow> npfloat nd" where
  "add_c a c = map_nd (\<lambda>x. fl_add x (Fin c)) a"

definition c_add :: "real \<Rightarrow> npfloat nd \<Rightarrow> npfloat nd" where
  "c_add c a = map_nd (\<lambda>x. fl_add (Fin c) x) a"

definition sub_c :: "npfloat nd \<Rightarrow> real \<Rightarrow> npfloat nd" where
  "sub_c a c = map_nd (\<lambda>x. fl_sub x (Fin c)) a"

definition mul_c :: "npfloat nd \<Rightarrow> real \<Rightarrow> npfloat nd" where
  "mul_c a c = map_nd (\<lambda>x. fl_mul x (Fin c)) a"

definition c_mul :: "real \<Rightarrow> npfloat nd \<Rightarrow> npfloat nd" where
  "c_mul c a = map_nd (\<lambda>x. fl_mul (Fin c) x) a"

definition div_c :: "npfloat nd \<Rightarrow> real \<Rightarrow> npfloat nd" where
  "div_c a c = map_nd (\<lambda>x. fl_div x (Fin c)) a"

definition c_div :: "real \<Rightarrow> npfloat nd \<Rightarrow> npfloat nd" where
  "c_div c a = map_nd (\<lambda>x. fl_div (Fin c) x) a"

definition power_c :: "npfloat nd \<Rightarrow> real \<Rightarrow> npfloat nd" where
  "power_c a c = map_nd (\<lambda>x. fl_pow x (Fin c)) a"

definition c_power :: "real \<Rightarrow> npfloat nd \<Rightarrow> npfloat nd" where
  "c_power c a = map_nd (\<lambda>x. fl_pow (Fin c) x) a"

definition np_log10 :: "npfloat nd \<Rightarrow> npfloat nd" where
  "np_log10 a = map_nd fl_log10 a"

definition gt_c :: "npfloat nd \<Rightarrow> real \<Rightarrow> bool nd" where
  "gt_c a c = map_nd (\<lambda>x. fl_gt x (Fin c)) a"

fun np_all :: "bool nd \<Rightarrow> bool" where
  "np_all (Scalar b) = b"
| "np_all (Array bs) = list_all (\<lambda>b. b) bs"

section \<open>The transforms\<close>

text \<open>
  Python exceptions are values: \<open>AssertionError\<close> is what the \<^verbatim>\<open>assert\<close> of \<^verbatim>\<open>vbi\<close>
  raises (the specification's DomainError), \<open>KeyError k\<close> what a dictionary raises
  for a missing key \<open>k\<close> (the specification's NotFoundError, naming the key), and
  \<open>TypeError\<close> what calling a value that is no function raises.  \<open>DomainError k i\<close>
  belongs to the constraint projector of the specification only: a domain failure
  annotated with the property key and the position of the element.  The interpreter
  runs with assertions enabled and numpy in its default error state, in which a division
  by zero, an overflow or an invalid operation is a warning and not an exception.
\<close>

datatype error = AssertionError | KeyError string | TypeError | DomainError string nat

definition celcius_to_fahrenheit :: "npfloat nd \<Rightarrow> npfloat nd" where
  "celcius_to_fahrenheit c = add_c (div_c (mul_c c 9) 5) 32"

definition fahrenheit_to_celcius :: "npfloat nd \<Rightarrow> npfloat nd" where
  "fahrenheit_to_celcius f = div_c (mul_c (sub_c f 32) 5) 9"

definition rvpi :: "npfloat nd \<Rightarrow> npfloat nd" where
  "rvpi rvp = power_c rvp 1.25"

definition inv_rvpi :: "npfloat nd \<Rightarrow> npfloat nd" where
  "inv_rvpi rvpi' = power_c rvpi' (1.0 / 1.25)"

definition ppi :: "npfloat nd \<Rightarrow> npfloat nd" where
  "ppi pp =
     (let ppc = fahrenheit_to_celcius pp;
          term1 = div_c (add_c ppc 273.15) 283.15;
          term2 = mul_c term1 (100 powr 0.08)
      in power_c term2 12.5)"

definition inv_ppi :: "npfloat nd \<Rightarrow> npfloat nd" where
  "inv_ppi ppi' =
     add_c (mul_c (sub_c (c_mul 283.15 (power_c (div_c ppi' 100) 0.08)) 273.15) 1.8) 32"

definition vbi :: "npfloat nd \<Rightarrow> error + npfloat nd" where
  "vbi v =
     (if np_all (gt_c v 0.2) then Inr (np_log10 (np_log10 (add_c v 0.8)))
      else Inl AssertionError)"

definition inv_vbi :: "npfloat nd \<Rightarrow> npfloat nd" where
  "inv_vbi vbi' = sub_c (c_power 10 (c_power 10 vbi')) 0.8"

definition sg :: "npfloat nd \<Rightarrow> npfloat nd" where
  "sg api' = c_div 141.5 (c_add 131.5 api')"

definition api :: "npfloat nd \<Rightarrow> npfloat nd" where
  "api sg' = sub_c (c_div 141.5 sg') 131.5"

section \<open>The registry \<^verbatim>\<open>blend_indices\<close>\<close>

text \<open>
  The registry is a Python dictionary of dictionaries, here association lists in the order
  of the literal.  A value of an inner dictionary is a string or a function.  A transform
  without a \<^verbatim>\<open>raise\<close> or \<^verbatim>\<open>assert\<close> of its own is stored through \<open>returns\<close>.
\<close>

datatype entry_value = Str string | Func "npfloat nd \<Rightarrow> error + npfloat nd"

definition returns :: "('a \<Rightarrow> 'b) \<Rightarrow> 'a \<Rightarrow> error + 'b" where
  "returns f x = Inr (f x)"

type_synonym registry = "(string \<times> (string \<times> entry_value) list) list"

definition blend_indices :: registry where
  "blend_indices =
     [(''vis100f'',
        [(''index_name'', Str ''vis100f_idx''),
         (''func'', Func vbi),
         (''inv_func'', Func (returns inv_vbi))]),
      (''rvp'',
        [(''index_name'', Str ''rvp_idx''),
         (''func'', Func (returns rvpi)),
         (''inv_func'', Func (returns inv_rvpi))]),
      (''pour'',
        [(''index_name'', Str ''pour_idx''),
         (''func'', Func (returns ppi)),
         (''inv_func'', Func (returns inv_ppi))]),
      (''api'',
        [(''index_name'', Str ''sg''),
         (''func'', Func (returns sg)),
         (''inv_func'', Func (returns api))])]"

text \<open>
  \<open>getitem d k\<close> is the subscript \<^verbatim>\<open>d[k]\<close>, \<open>call\<close> the application of a value of
  the registry, \<open>and_then\<close> the sequencing of two steps of which the first may raise.
\<close>

definition getitem :: "(string \<times> 'v) list \<Rightarrow> string \<Rightarrow> error + 'v" where
  "getitem d k = (case map_of d k of None \<Rightarrow> Inl (KeyError k) | Some v \<Rightarrow> Inr v)"

fun call :: "entry_value \<Rightarrow> npfloat nd \<Rightarrow> error + npfloat nd" where
  "call (Func f) x = f x"
| "call (Str s) x = Inl TypeError"

fun and_then :: "error + 'a \<Rightarrow> ('a \<Rightarrow> error + 'b) \<Rightarrow> error + 'b" where
  "and_then (Inl e) f = Inl e"
| "and_then (Inr a) f = f a"

text \<open>
  The module has no dispatch function of its own: \<open>forward k x\<close> is the expression
  \<^verbatim>\<open>blend_indices[k]["func"](x)\<close> and \<open>inverse_transform k x\<close> is
  \<^verbatim>\<open>blend_indices[k]["inv_func"](x)\<close>, the specification's \<open>forward\<close> and \<open>inverse\<close>.
\<close>

definition forward :: "string \<Rightarrow> npfloat nd \<Rightarrow> error + npfloat nd" where
  "forward k x =
     and_then (getitem blend_indices k) (\<lambda>entry.
     and_then (getitem entry ''func'') (\<lambda>f. call f x))"

definition inverse_transform :: "string \<Rightarrow> npfloat nd \<Rightarrow> error + npfloat nd" where
  "inverse_transform k x =
     and_then (getitem blend_indices k) (\<lambda>entry.
     and_then (getitem entry ''inv_func'') (\<lambda>f. call f x))"

section \<open>Quality constraints\<close>

text \<open>
  A constraint set is a dictionary from property key to a list of bounds, in iteration
  order.  The body of \<^verbatim>\<open>process_quality_constraints\<close> is a docstring and nothing
  else, so a call returns \<^verbatim>\<open>None\<close> whatever the argument.
\<close>

type_synonym constraints = "(string \<times> npfloat list) list"

definition process_quality_constraints :: "constraints \<Rightarrow> constraints option" where
  "process_quality_constraints constraints = None"

text \<open>
  The module does not implement the constraint projector \<open>project_constraints\<close> of
  section 4.3 of the specification: \<^verbatim>\<open>process_quality_constraints\<close> has no body and
  no direction argument.  The definitions of the projector below follow the words of
  that section, on top of the registry and the transforms of the module.
\<close>

text \<open>
  Modelled from the spec: the transform direction, \<^verbatim>\<open>to_index\<close> or \<^verbatim>\<open>to_physical\<close>,
  which the module does not have.
\<close>

datatype direction = to_index | to_physical

text \<open>
  Modelled from the spec: the transform of a key in a direction, the forward one to the
  index and the inverse one to the physical value; the module has no such dispatch.
\<close>

fun transform :: "direction \<Rightarrow> string \<Rightarrow> npfloat nd \<Rightarrow> error + npfloat nd" where
  "transform to_index k x = forward k x"
| "transform to_physical k x = inverse_transform k x"

text \<open>
  Modelled from the spec: the annotation of a domain failure with the property key and
  the position of the element, missing from the module; another error is passed on.
\<close>

fun annotate :: "string \<Rightarrow> nat \<Rightarrow> error \<Rightarrow> error" where
  "annotate k i AssertionError = DomainError k i"
| "annotate k i e = e"

text \<open>
  Modelled from the spec: the projection of the list of one key, missing from the module.
  Each value is passed through the transform on its own, in order, from position \<open>i\<close>
  on; the first failure fails the list, and the result has one value for each value.
\<close>

fun project_values :: "direction \<Rightarrow> string \<Rightarrow> nat \<Rightarrow> npfloat list \<Rightarrow> error + npfloat list" where
  "project_values d k i [] = Inr []"
| "project_values d k i (v # vs) =
     (case transform d k (Scalar v) of
        Inl e \<Rightarrow> Inl (annotate k i e)
      | Inr (Array ys) \<Rightarrow> Inl TypeError
      | Inr (Scalar y) \<Rightarrow> and_then (project_values d k (Suc i) vs) (\<lambda>ys. Inr (y # ys)))"

text \<open>
  Modelled from the spec: the projection of the entries of a constraint set in iteration
  order, missing from the module; the first list that fails fails the call, so that no
  partial mapping is returned.
\<close>

fun project_entries :: "direction \<Rightarrow> constraints \<Rightarrow> error + constraints" where
  "project_entries d [] = Inr []"
| "project_entries d ((k, vs) # cs) =
     and_then (project_values d k 0 vs) (\<lambda>ys.
     and_then (project_entries d cs) (\<lambda>out. Inr ((k, ys) # out)))"

text \<open>
  Modelled from the spec: \<open>project_constraints\<close>, missing from the module.  Every key is
  validated against the registry first, and the first unknown key fails the call with
  the error of the registry for it; then the entries are projected.
\<close>

definition project_constraints :: "constraints \<Rightarrow> direction \<Rightarrow> error + constraints" where
  "project_constraints cs d =
     (case find (\<lambda>k. map_of blend_indices k = None) (map fst cs) of
        Some k \<Rightarrow> Inl (KeyError k)
      | None \<Rightarrow> project_entries d cs)"

section \<open>Notions of the specification\<close>

text \<open>
  The valid domain of each property, on finite values.  Viscosity must exceed 0.2 (the
  \<^verbatim>\<open>assert\<close> of \<^verbatim>\<open>vbi\<close>); a Reid vapor pressure is not negative (the index of a
  negative one is NaN); a pour point is not below absolute zero, -459.67 degrees
  Fahrenheit (below it \<^verbatim>\<open>term2\<close> of \<^verbatim>\<open>ppi\<close> is negative and the index is NaN); an API
  gravity is any finite number (at -131.5 its index is infinity, and the inverse
  transform leads back from there).  The index domain holds the finite indices from
  which the inverse transform leads into the valid domain or, for API gravity at index
  zero, to infinity: every index of viscosity and of API gravity, the indices from zero
  on of vapor pressure and pour point.
\<close>

fun physical_domain :: "string \<Rightarrow> npfloat \<Rightarrow> bool" where
  "physical_domain k (Fin r) =
     (if k = ''vis100f'' then 0.2 < r
      else if k = ''rvp'' then 0 \<le> r
      else if k = ''pour'' then - 459.67 \<le> r
      else k = ''api'')"
| "physical_domain k x = False"


text \<open>
  Applying a transform to each element on its own and collecting the scalar results in
  order; the first element that fails fails the collection.
\<close>

fun collect :: "(error + npfloat nd) list \<Rightarrow> error + npfloat list" where
  "collect [] = Inr []"
| "collect (Inl e # rs) = Inl e"
| "collect (Inr (Array ys) # rs) = Inl TypeError"
| "collect (Inr (Scalar y) # rs) = and_then (collect rs) (\<lambda>ys. Inr (y # ys))"

text \<open>
  The registry as module state.  An operation is a call of one of the functions of the
  module; \<open>run\<close> gives its outcome and the registry after it.  No function of the module
  assigns to \<^verbatim>\<open>blend_indices\<close> or calls a method on it.
\<close>

datatype operation =
    Call_celcius_to_fahrenheit "npfloat nd"
  | Call_fahrenheit_to_celcius "npfloat nd"
  | Call_rvpi "npfloat nd"
  | Call_inv_rvpi "npfloat nd"
  | Call_ppi "npfloat nd"
  | Call_inv_ppi "npfloat nd"
  | Call_vbi "npfloat nd"
  | Call_inv_vbi "npfloat nd"
  | Call_sg "npfloat nd"
  | Call_api "npfloat nd"
  | Call_process_quality_constraints constraints

datatype outcome = Returned "npfloat nd" | Raised error | Returned_None

fun outcome_of :: "error + npfloat nd \<Rightarrow> outcome" where
  "outcome_of (Inl e) = Raised e"
| "outcome_of (Inr y) = Returned y"

fun run :: "operation \<Rightarrow> registry \<Rightarrow> outcome \<times> registry" where
  "run (Call_celcius_to_fahrenheit x) reg = (Returned (celcius_to_fahrenheit x), reg)"
| "run (Call_fahrenheit_to_celcius x) reg = (Returned (fahrenheit_to_celcius x), reg)"
| "run (Call_rvpi x) reg = (Returned (rvpi x), reg)"
| "run (Call_inv_rvpi x) reg = (Returned (inv_rvpi x), reg)"
| "run (Call_ppi x) reg = (Returned (ppi x), reg)"
| "run (Call_inv_ppi x) reg = (Returned (inv_ppi x), reg)"
| "run (Call_vbi x) reg = (outcome_of (vbi x), reg)"
| "run (Call_inv_vbi x) reg = (Returned (inv_vbi x), reg)"
| "run (Call_sg x) reg = (Returned (sg x), reg)"
| "run (Call_api x) reg = (Returned (api x), reg)"
| "run (Call_process_quality_constraints cs) reg = (Returned_None, reg)"

fun run_all :: "operation list \<Rightarrow> registry \<Rightarrow> registry" where
  "run_all [] reg = reg"
| "run_all (c # cs) reg = run_all cs (snd (run c reg))"


text \<open>An entry of the registry that has a string for name and a function for each direction.\<close>

fun is_str :: "entry_value option \<Rightarrow> bool" where
  "is_str (Some (Str s)) = True"
| "is_str v = False"

fun is_func :: "entry_value option \<Rightarrow> bool" where
  "is_func (Some (Func f)) = True"
| "is_func v = False"

definition complete_entry :: "(string \<times> entry_value) list \<Rightarrow> bool" where
  "complete_entry e =
     (map fst e = [''index_name'', ''func'', ''inv_func'']
      \<and> is_str (map_of e ''index_name'')
      \<and> is_func (map_of e ''func'')
      \<and> is_func (map_of e ''inv_func''))"

section \<open>Double precision\<close>








section \<open>Auxiliary facts\<close>

lemmas ufunc_defs = add_c_def c_add_def sub_c_def mul_c_def c_mul_def div_c_def c_div_def
  power_c_def c_power_def np_log10_def gt_c_def fl_sub_def

lemma forward_vis100f: "forward ''vis100f'' x = vbi x"
  by (simp add: forward_def getitem_def blend_indices_def)


lemma forward_rvp: "forward ''rvp'' x = Inr (rvpi x)"
  by (simp add: forward_def getitem_def blend_indices_def returns_def)


lemma forward_pour: "forward ''pour'' x = Inr (ppi x)"
  by (simp add: forward_def getitem_def blend_indices_def returns_def)

lemma inverse_pour: "inverse_transform ''pour'' x = Inr (inv_ppi x)"
  by (simp add: inverse_transform_def getitem_def blend_indices_def returns_def)

lemma forward_api: "forward ''api'' x = Inr (sg x)"
  by (simp add: forward_def getitem_def blend_indices_def returns_def)



lemma registered_keys: "dom (map_of blend_indices) = {''vis100f'', ''rvp'', ''pour'', ''api''}"
  by (auto simp add: blend_indices_def dom_def split: if_splits)

lemma registered_cases:
  assumes "k \<in> dom (map_of blend_indices)"
  obtains "k = ''vis100f''" | "k = ''rvp''" | "k = ''pour''" | "k = ''api''"
  using assms unfolding registered_keys by blast

lemma unregistered_forward: "map_of blend_indices k = None \<Longrightarrow> forward k x = Inl (KeyError k)"
  by (simp add: forward_def getitem_def)

lemma unregistered_inverse:
  "map_of blend_indices k = None \<Longrightarrow> inverse_transform k x = Inl (KeyError k)"
  by (simp add: inverse_transform_def getitem_def)

lemma vbi_Scalar:
  "vbi (Scalar x) =
     (if fl_gt x (Fin 0.2) then Inr (Scalar (fl_log10 (fl_log10 (fl_add x (Fin 0.8)))))
      else Inl AssertionError)"
  by (simp add: vbi_def ufunc_defs)

lemma vbi_Array:
  "vbi (Array xs) =
     (if list_all (\<lambda>x. fl_gt x (Fin 0.2)) xs
      then Inr (Array (map (\<lambda>x. fl_log10 (fl_log10 (fl_add x (Fin 0.8)))) xs))
      else Inl AssertionError)"
  by (simp add: vbi_def ufunc_defs list_all_iff)



lemma pour_real:
  "0 \<le> (t::real) \<Longrightarrow> (((t * 100 powr 0.08) powr 12.5) / 100) powr 0.08 = t"
  by (simp add: powr_mult powr_powr)




subsection \<open>Every transform acts on each element\<close>

lemma rvpi_elementwise: "\<exists>h. \<forall>z. rvpi z = map_nd h z"
  unfolding rvpi_def ufunc_defs by blast


lemma ppi_elementwise: "\<exists>h. \<forall>z. ppi z = map_nd h z"
  unfolding ppi_def Let_def fahrenheit_to_celcius_def ufunc_defs nd.map_comp by blast




lemma sg_elementwise: "\<exists>h. \<forall>z. sg z = map_nd h z"
  unfolding sg_def ufunc_defs nd.map_comp by blast



subsection \<open>Round trips\<close>













subsection \<open>Collecting the results of the elements\<close>

lemma collect_elementwise: "collect (map (\<lambda>x. Inr (Scalar (h x))) xs) = Inr (map h xs)"
  by (induction xs) simp_all

lemma elementwise_vectorized:
  fixes f :: "npfloat nd \<Rightarrow> npfloat nd"
  assumes "\<exists>h. \<forall>z. f z = map_nd h z"
  shows "(Inr (f (Array xs)) :: error + npfloat nd) =
      (case collect (map (\<lambda>x. Inr (f (Scalar x))) xs) of
         Inl e \<Rightarrow> Inl e | Inr ys \<Rightarrow> Inr (Array ys))
    \<and> (P \<longrightarrow> (\<exists>ys. (Inr (f (Array xs)) :: error + npfloat nd) = Inr (Array ys)
          \<and> length ys = length xs))
    \<and> (Q \<longrightarrow> (\<exists>y. (Inr (f (Scalar x)) :: error + npfloat nd) = Inr (Scalar y)))"
proof -
  from assms obtain h where "\<And>z. f z = map_nd h z" by blast
  then show ?thesis by (simp add: collect_elementwise)
qed

lemma vbi_collect:
  "collect (map (\<lambda>x. vbi (Scalar x)) xs) =
     (if list_all (\<lambda>x. fl_gt x (Fin 0.2)) xs
      then Inr (map (\<lambda>x. fl_log10 (fl_log10 (fl_add x (Fin 0.8)))) xs)
      else Inl AssertionError)"
  by (induction xs) (simp_all add: vbi_Scalar)

lemma vbi_vectorized:
  "vbi (Array xs) =
    (case collect (map (\<lambda>x. vbi (Scalar x)) xs) of
       Inl e \<Rightarrow> Inl e | Inr ys \<Rightarrow> Inr (Array ys))"
  by (simp add: vbi_Array vbi_collect)

lemma vis_domain_gt: "physical_domain ''vis100f'' e \<Longrightarrow> fl_gt e (Fin 0.2)"
  by (cases e) simp_all

subsection \<open>The registry under the calls of the module\<close>

lemma run_keeps_registry: "snd (run c reg) = reg"
  by (cases c) simp_all

lemma run_all_keeps_registry: "run_all cs reg = reg"
  by (induction cs arbitrary: reg) (simp_all add: run_keeps_registry)

lemma process_quality_constraints_stub: "process_quality_constraints cs = None"
  by (simp add: process_quality_constraints_def)

subsection \<open>The constraint projector\<close>









lemma first_unknown_found:
  assumes "map_of blend_indices k = None"
    and "list_all (\<lambda>(k', vs). k' \<in> dom (map_of blend_indices)) pre"
  shows "find (\<lambda>k. map_of blend_indices k = None) (map fst (pre @ (k, vs) # post)) = Some k"
  using assms(2)
proof (induction pre)
  case Nil
  from assms(1) show ?case by simp
next
  case (Cons c pre)
  then show ?case by (cases c) auto
qed

subsection \<open>Rounding to a double\<close>











section \<open>Claims\<close>









text \<open>
  C4, as stated, fails: at an API gravity of -131.5 the denominator is zero and the
  forward transform raises nothing; \<^verbatim>\<open>np.divide\<close> returns infinity.
\<close>

theorem sg_zero_denominator_counterexample:
  "forward ''api'' (Scalar (Fin (- 131.5))) = Inr (Scalar PInf)"
  by (simp add: forward_api sg_def ufunc_defs fl_signed_inf_def)

text \<open>
  C4, amended.  The API-gravity forward transform never fails.  On a finite API gravity
  it returns 141.5 / (131.5 + API) when the denominator is not zero and infinity when it
  is (API = -131.5); for 0 it returns 141.5 / 131.5.
\<close>

theorem sg_divides_without_guard:
  "forward ''api'' (Scalar (Fin a)) =
     Inr (Scalar (if 131.5 + a = 0 then PInf else Fin (141.5 / (131.5 + a))))
   \<and> forward ''api'' (Scalar (Fin 0)) = Inr (Scalar (Fin (141.5 / 131.5)))
   \<and> (\<exists>y. forward ''api'' x = Inr y)"
  by (simp add: forward_api sg_def ufunc_defs fl_signed_inf_def)

text \<open>
  C5.  For a key that is not in the registry, the forward and the inverse lookup fail
  with the \<^verbatim>\<open>KeyError\<close> of that key (the specification's NotFoundError) and return
  nothing else.  The projector of the specification fails with the \<^verbatim>\<open>KeyError\<close> of
  that key on every constraint set in which the key is the first unknown one, and on
  every constraint set that contains the key it fails with the \<^verbatim>\<open>KeyError\<close> of an
  unknown key of the set.
\<close>

theorem unknown_key_fails:
  "map_of blend_indices k = None \<Longrightarrow>
     forward k x = Inl (KeyError k)
     \<and> inverse_transform k x = Inl (KeyError k)
     \<and> (list_all (\<lambda>(k', vs). k' \<in> dom (map_of blend_indices)) pre \<longrightarrow>
          project_constraints (pre @ (k, vs) # post) d = Inl (KeyError k))
     \<and> (k \<in> set (map fst cs) \<longrightarrow>
          (\<exists>k'. k' \<in> set (map fst cs) \<and> map_of blend_indices k' = None
             \<and> project_constraints cs d = Inl (KeyError k')))"
proof (intro conjI impI)
  assume k: "map_of blend_indices k = None"
  show "forward k x = Inl (KeyError k)" by (rule unregistered_forward [OF k])
  show "inverse_transform k x = Inl (KeyError k)" by (rule unregistered_inverse [OF k])
  show "project_constraints (pre @ (k, vs) # post) d = Inl (KeyError k)"
    if "list_all (\<lambda>(k', vs). k' \<in> dom (map_of blend_indices)) pre"
    using first_unknown_found [OF k that] by (simp add: project_constraints_def)
  show "\<exists>k'. k' \<in> set (map fst cs) \<and> map_of blend_indices k' = None
      \<and> project_constraints cs d = Inl (KeyError k')"
    if "k \<in> set (map fst cs)"
  proof (cases "find (\<lambda>k. map_of blend_indices k = None) (map fst cs)")
    case None
    with k that show ?thesis by (auto simp add: find_None_iff)
  next
    case (Some k')
    then have "k' \<in> set (map fst cs)" and "map_of blend_indices k' = None"
      by (auto simp add: find_Some_iff)
    with Some show ?thesis by (auto simp add: project_constraints_def)
  qed
qed

theorem unknown_key_fails_witness:
  "map_of blend_indices ''unknown_prop'' = None
   \<and> list_all (\<lambda>(k', vs). k' \<in> dom (map_of blend_indices)) [(''rvp'', [Fin 1])]
   \<and> ''unknown_prop'' \<in> set (map fst [(''rvp'', [Fin 1]), (''unknown_prop'', [Fin 1 :: npfloat])])
   \<and> forward ''unknown_prop'' (Scalar (Fin 1)) = Inl (KeyError ''unknown_prop'')
   \<and> inverse_transform ''unknown_prop'' (Scalar (Fin 1)) = Inl (KeyError ''unknown_prop'')
   \<and> project_constraints [(''rvp'', [Fin 1]), (''unknown_prop'', [Fin 1])] to_index =
       Inl (KeyError ''unknown_prop'')"
proof -
  have k: "map_of blend_indices ''unknown_prop'' = None"
    by (simp add: blend_indices_def)
  have pre: "list_all (\<lambda>(k', vs). k' \<in> dom (map_of blend_indices)) [(''rvp'', [Fin 1])]"
    by (simp add: registered_keys)
  from unknown_key_fails [OF k, of "Scalar (Fin 1)" "[(''rvp'', [Fin 1])]" "[Fin 1]" "[]" to_index
      "[(''rvp'', [Fin 1]), (''unknown_prop'', [Fin 1])]"] k pre
  show ?thesis by simp
qed

text \<open>
  C6.  The pour-point forward transform at 32 degrees Fahrenheit is
  \<open>((273.15 / 283.15) * 100 powr 0.08) powr 12.5\<close>, and the inverse transform of that
  number is 32; both hold with equality in exact real arithmetic.
\<close>

theorem ppi_freezing_point:
  "forward ''pour'' (Scalar (Fin 32)) =
     Inr (Scalar (Fin (((273.15 / 283.15) * 100 powr 0.08) powr 12.5)))
   \<and> inverse_transform ''pour'' (Scalar (Fin (((273.15 / 283.15) * 100 powr 0.08) powr 12.5))) =
     Inr (Scalar (Fin 32))"
proof -
  let ?t = "273.15 / 283.15 :: real"
  have "(((?t * 100 powr 0.08) powr 12.5) / 100) powr 0.08 = ?t"
    by (rule pour_real) simp
  then have "283.15 * ((((?t * 100 powr 0.08) powr 12.5) / 100) powr 0.08) = 273.15"
    by simp
  then show ?thesis
    by (simp add: forward_pour inverse_pour ppi_def inv_ppi_def fahrenheit_to_celcius_def
        ufunc_defs)
qed

text \<open>
  C7.  For each registered property, the forward transform of an array is the array of
  the results of the forward transform of each element as a scalar, collected in order
  (and fails when one of them fails).  On an array of values of the valid domain it
  returns an array of the same length, and on a scalar of the valid domain a scalar.
\<close>

theorem forward_vectorized:
  "k \<in> dom (map_of blend_indices) \<Longrightarrow>
     forward k (Array xs) =
       (case collect (map (\<lambda>x. forward k (Scalar x)) xs) of
          Inl e \<Rightarrow> Inl e | Inr ys \<Rightarrow> Inr (Array ys))
     \<and> (list_all (physical_domain k) xs \<longrightarrow>
          (\<exists>ys. forward k (Array xs) = Inr (Array ys) \<and> length ys = length xs))
     \<and> (physical_domain k x \<longrightarrow> (\<exists>y. forward k (Scalar x) = Inr (Scalar y)))"
proof (erule registered_cases)
  assume k: "k = ''vis100f''"
  have gt: "list_all (\<lambda>x. fl_gt x (Fin 0.2)) xs" if "list_all (physical_domain ''vis100f'') xs"
    using that unfolding list_all_iff by (blast intro: vis_domain_gt)
  have "vbi (Array xs) =
      (case collect (map (\<lambda>x. vbi (Scalar x)) xs) of
         Inl e \<Rightarrow> Inl e | Inr ys \<Rightarrow> Inr (Array ys))"
    by (rule vbi_vectorized)
  moreover have "list_all (physical_domain ''vis100f'') xs \<longrightarrow>
      (\<exists>ys. vbi (Array xs) = Inr (Array ys) \<and> length ys = length xs)"
    using gt by (auto simp add: vbi_Array)
  moreover have "physical_domain ''vis100f'' x \<longrightarrow> (\<exists>y. vbi (Scalar x) = Inr (Scalar y))"
    using vis_domain_gt [of x] by (auto simp add: vbi_Scalar)
  ultimately show ?thesis
    unfolding k forward_vis100f by blast
next
  assume k: "k = ''rvp''"
  show ?thesis
    unfolding k forward_rvp by (rule elementwise_vectorized [OF rvpi_elementwise])
next
  assume k: "k = ''pour''"
  show ?thesis
    unfolding k forward_pour by (rule elementwise_vectorized [OF ppi_elementwise])
next
  assume k: "k = ''api''"
  show ?thesis
    unfolding k forward_api by (rule elementwise_vectorized [OF sg_elementwise])
qed

theorem forward_vectorized_witness:
  "''rvp'' \<in> dom (map_of blend_indices)
   \<and> list_all (physical_domain ''rvp'') [Fin 0, Fin 1]
   \<and> physical_domain ''rvp'' (Fin 1)
   \<and> forward ''rvp'' (Array [Fin 0, Fin 1]) =
       (case collect (map (\<lambda>x. forward ''rvp'' (Scalar x)) [Fin 0, Fin 1]) of
          Inl e \<Rightarrow> Inl e | Inr ys \<Rightarrow> Inr (Array ys))
   \<and> (\<exists>ys. forward ''rvp'' (Array [Fin 0, Fin 1]) = Inr (Array ys)
         \<and> length ys = length [Fin 0, Fin 1])
   \<and> (\<exists>y. forward ''rvp'' (Scalar (Fin 1)) = Inr (Scalar y))"
proof -
  have k: "''rvp'' \<in> dom (map_of blend_indices)"
    by (simp add: registered_keys)
  have xs: "list_all (physical_domain ''rvp'') [Fin 0, Fin 1]"
    by simp
  have x: "physical_domain ''rvp'' (Fin 1)"
    by simp
  from forward_vectorized [OF k, of "[Fin 0, Fin 1]" "Fin 1"] k xs x show ?thesis
    by blast
qed



text \<open>
  C9.  The registry has exactly the keys vis100f, rvp, pour and api, each once; every
  entry has a string under \<^verbatim>\<open>index_name\<close> and a function under \<^verbatim>\<open>func\<close> and under
  \<^verbatim>\<open>inv_func\<close>, and nothing else; and whatever calls of the functions of the module
  are run, the registry after them is the registry before them.
\<close>

theorem registry_fixed:
  "dom (map_of blend_indices) = {''vis100f'', ''rvp'', ''pour'', ''api''}
   \<and> map fst blend_indices = [''vis100f'', ''rvp'', ''pour'', ''api'']
   \<and> list_all complete_entry (map snd blend_indices)
   \<and> run_all calls blend_indices = blend_indices"
  by (simp add: registered_keys run_all_keeps_registry)
    (simp add: blend_indices_def complete_entry_def)

end
